theory Spec2Isabelle
  imports Complex_Main "HOL-Library.AList"
begin

section \<open>Data model\<close>

text \<open>
  Python values that occur in the metadata dictionaries. Floats are modelled as reals:
  rounding to \<^verbatim>\<open>float32\<close> and NaN are abstracted away; the order comparisons the code
  makes are the comparisons of the reals.
\<close>

datatype pyval = PStr string | PInt int | PFloat real

text \<open>
  A metadata dictionary is an association list in insertion order, with distinct keys
  when built by the code; \<^verbatim>\<open>m.get(k)\<close> is \<open>map_of m k\<close>.
\<close>

type_synonym dict = "(string \<times> pyval) list"

datatype error = AssertionError | IndexError | KeyError | HTTPException

text \<open>
  \<^verbatim>\<open>{"page": i + 1, "text": cleaned, "pdf_name": pdf_name}\<close>, the dictionary the extractor
  builds and the chunker reads by its three keys.
\<close>

record page_data =
  page :: int
  "text" :: string
  pdf_name :: string

text \<open>
  A numpy array of shape \<open>(n, dim)\<close>: \<open>shape1\<close> is \<^verbatim>\<open>shape[1]\<close> and \<open>rows\<close> holds the
  \<open>n\<close> rows.
\<close>

record ndarray =
  shape1 :: nat
  rows :: "real list list"

text \<open>
  \<^verbatim>\<open>faiss.IndexFlatL2\<close>: the dimension it was created with and the stored vectors in
  insertion order; \<^verbatim>\<open>ntotal\<close> is their number.
\<close>

record faiss_index =
  index_d :: nat
  index_xb :: "real list list"

definition ntotal :: "faiss_index \<Rightarrow> nat" where
  "ntotal ix = length (index_xb ix)"

definition IndexFlatL2 :: "nat \<Rightarrow> faiss_index" where
  "IndexFlatL2 n = \<lparr>index_d = n, index_xb = []\<rparr>"

text \<open>
  The module state of \<^verbatim>\<open>vector_store.py\<close> together with the two files it persists to:
  \<open>mem_index\<close> is \<^verbatim>\<open>_index\<close>, \<open>mem_metadata\<close> is \<^verbatim>\<open>_metadata\<close>, \<open>disk_index\<close> is the
  content of \<^verbatim>\<open>INDEX_PATH\<close> and \<open>disk_metadata\<close> that of \<^verbatim>\<open>METADATA_PATH\<close>
  (\<open>None\<close> when the file does not exist). Files hold what \<^verbatim>\<open>_save\<close> wrote; unreadable
  files and failing writes are outside the model.
\<close>

record store =
  mem_index :: "faiss_index option"
  mem_metadata :: "dict list"
  disk_index :: "faiss_index option"
  disk_metadata :: "dict list option"

definition empty_store :: store where
  "empty_store = \<lparr>mem_index = None, mem_metadata = [], disk_index = None, disk_metadata = None\<rparr>"

section \<open>The FAISS calls the code makes\<close>

text \<open>
  \<^verbatim>\<open>index.add(x)\<close> of the FAISS Python wrapper asserts \<^verbatim>\<open>x.shape[1] == index.d\<close> and then
  appends the rows in order.
\<close>

definition faiss_add :: "faiss_index \<Rightarrow> ndarray \<Rightarrow> error + faiss_index" where
  "faiss_add ix x =
     (if shape1 x \<noteq> index_d ix then Inl AssertionError
      else Inr (ix\<lparr>index_xb := index_xb ix @ rows x\<rparr>))"

definition l2sqr :: "real list \<Rightarrow> real list \<Rightarrow> real" where
  "l2sqr x y = sum_list (map (\<lambda>(a, b). (a - b) ^ 2) (zip x y))"

definition FLT_MAX :: real where
  "FLT_MAX = 340282346638528859811704183484516925440"

text \<open>
  \<^verbatim>\<open>index.search(x, k)\<close> asserts the width of \<open>x\<close> and \<^verbatim>\<open>k > 0\<close>; for each query row it
  gives the \<open>k\<close> nearest stored vectors by squared L2 distance, nearest first, as a row of
  distances and a row of positions, padded with label \<open>-1\<close> when fewer than \<open>k\<close> vectors
  are stored. The result here is row \<open>0\<close> of both (\<^verbatim>\<open>distances[0]\<close>, \<^verbatim>\<open>indices[0]\<close>),
  which does not exist for an array of no rows.
\<close>

definition faiss_search :: "faiss_index \<Rightarrow> ndarray \<Rightarrow> int \<Rightarrow> error + (real list \<times> int list)" where
  "faiss_search ix x k =
     (if shape1 x \<noteq> index_d ix \<or> k \<le> 0 then Inl AssertionError
      else case rows x of
        [] \<Rightarrow> Inl IndexError
      | q # _ \<Rightarrow>
          (let ranked = take (nat k)
                 (sort_key fst (zip (map (l2sqr q) (index_xb ix)) (map int [0..<ntotal ix])));
               padded = ranked @ replicate (nat k - length ranked) (FLT_MAX, - 1)
           in Inr (map fst padded, map snd padded)))"

section \<open>vector\_store.py\<close>

definition ensure_loaded :: "store \<Rightarrow> store" where
  "ensure_loaded s =
     (if mem_index s = None then
        (case (disk_index s, disk_metadata s) of
           (Some ix, Some md) \<Rightarrow> s\<lparr>mem_index := Some ix, mem_metadata := md\<rparr>
         | _ \<Rightarrow> s)
      else s)"

definition save :: "store \<Rightarrow> store" where
  "save s =
     s\<lparr>disk_index := (case mem_index s of Some ix \<Rightarrow> Some ix | None \<Rightarrow> disk_index s),
       disk_metadata := Some (mem_metadata s)\<rparr>"

text \<open>
  \<^verbatim>\<open>add_to_index\<close> returns the exception it raised, if any, and the state it leaves.
  When \<^verbatim>\<open>_index.add\<close> raises, the statements after it do not run.
\<close>

definition add_to_index :: "ndarray \<Rightarrow> dict list \<Rightarrow> store \<Rightarrow> error option \<times> store" where
  "add_to_index embeddings chunks_metadata s0 =
     (let s1 = ensure_loaded s0;
          dim = shape1 embeddings;
          (ix, s2) = (case mem_index s1 of
                        None \<Rightarrow> (IndexFlatL2 dim,
                                 s1\<lparr>mem_index := Some (IndexFlatL2 dim), mem_metadata := []\<rparr>)
                      | Some ix \<Rightarrow> (ix, s1))
      in case faiss_add ix embeddings of
           Inl e \<Rightarrow> (Some e, s2)
         | Inr ix' \<Rightarrow>
             (None, save (s2\<lparr>mem_index := Some ix',
                              mem_metadata := mem_metadata s2 @ chunks_metadata\<rparr>)))"

text \<open>
  \<^verbatim>\<open>_metadata[idx]\<close>: a position from the front when \<open>idx\<close> is not negative, from the
  back when it is, and an exception outside the list.
\<close>

definition py_getitem :: "'a list \<Rightarrow> int \<Rightarrow> error + 'a" where
  "py_getitem xs idx =
     (if 0 \<le> idx \<and> idx < int (length xs) then Inr (xs ! nat idx)
      else if idx < 0 \<and> - int (length xs) \<le> idx then Inr (xs ! nat (int (length xs) + idx))
      else Inl IndexError)"

fun search_loop :: "dict list \<Rightarrow> (real \<times> int) list \<Rightarrow> (dict \<times> real) list
    \<Rightarrow> error + (dict \<times> real) list" where
  "search_loop md [] results = Inr results"
| "search_loop md ((dst, idx) # rest) results =
     (if idx = - 1 then search_loop md rest results
      else if idx < int (length md) then
        (case py_getitem md idx of
           Inl e \<Rightarrow> Inl e
         | Inr m \<Rightarrow> search_loop md rest (results @ [(m, dst)]))
      else search_loop md rest results)"

definition search :: "ndarray \<Rightarrow> int \<Rightarrow> store \<Rightarrow> (error + (dict \<times> real) list) \<times> store" where
  "search query_embedding top_k s0 =
     (let s1 = ensure_loaded s0
      in case mem_index s1 of
           None \<Rightarrow> (Inr [], s1)
         | Some ix \<Rightarrow>
             if ntotal ix = 0 then (Inr [], s1)
             else (case faiss_search ix query_embedding top_k of
                     Inl e \<Rightarrow> (Inl e, s1)
                   | Inr (distances0, indices0) \<Rightarrow>
                       (search_loop (mem_metadata s1) (zip distances0 indices0) [], s1)))"

text \<open>
  \<^verbatim>\<open>_index.ntotal if _index else 0\<close>: an index object is true, \<^verbatim>\<open>None\<close> is false. The
  readers return their value and the state, which \<^verbatim>\<open>_ensure_loaded\<close> may have changed.
\<close>

definition get_index_size :: "store \<Rightarrow> nat \<times> store" where
  "get_index_size s0 =
     (let s1 = ensure_loaded s0
      in (case mem_index s1 of Some ix \<Rightarrow> ntotal ix | None \<Rightarrow> 0, s1))"

text \<open>
  \<^verbatim>\<open>list(set(...))\<close> has no specified order, so the result of \<^verbatim>\<open>get_indexed_pdfs\<close> is
  the set of its elements; \<^verbatim>\<open>m.get("pdf_name", "")\<close> is the stored value or the empty
  string.
\<close>

definition get_indexed_pdfs :: "store \<Rightarrow> pyval set \<times> store" where
  "get_indexed_pdfs s0 =
     (let s1 = ensure_loaded s0
      in (if mem_metadata s1 = [] then {}
          else set (map (\<lambda>m. case map_of m ''pdf_name'' of None \<Rightarrow> PStr [] | Some v \<Rightarrow> v)
                     (mem_metadata s1)),
          s1))"

definition clear_index :: "store \<Rightarrow> store" where
  "clear_index s =
     s\<lparr>mem_index := None, mem_metadata := [], disk_index := None, disk_metadata := None\<rparr>"

text \<open>The metadata log as the next operation sees it.\<close>

definition metadata_log :: "store \<Rightarrow> dict list" where
  "metadata_log s = mem_metadata (ensure_loaded s)"

text \<open>
  A sequence of \<^verbatim>\<open>add_to_index\<close> calls, each on the state the previous one left; a call
  that raised leaves its state to the next one, as the request handler that caught the
  exception does.
\<close>

fun run_adds :: "(ndarray \<times> dict list) list \<Rightarrow> store \<Rightarrow> store" where
  "run_adds [] s = s"
| "run_adds ((embeddings, chunks_metadata) # ops) s =
     run_adds ops (snd (add_to_index embeddings chunks_metadata s))"

section \<open>retriever.py\<close>

text \<open>The truth value of \<^verbatim>\<open>pdf_filter\<close>: \<^verbatim>\<open>None\<close> and the empty string are false.\<close>

definition py_truthy :: "string option \<Rightarrow> bool" where
  "py_truthy f = (case f of None \<Rightarrow> False | Some x \<Rightarrow> x \<noteq> [])"

definition fetch_k :: "int \<Rightarrow> string option \<Rightarrow> int" where
  "fetch_k top_k pdf_filter = (if py_truthy pdf_filter then top_k * 3 else top_k)"

definition round_half_even :: "real \<Rightarrow> int" where
  "round_half_even x =
     (let f = \<lfloor>x\<rfloor>; r = x - of_int f
      in if r < 1 / 2 then f else if 1 / 2 < r then f + 1 else if even f then f else f + 1)"

text \<open>\<^verbatim>\<open>round(distance, 4)\<close>, on the reals.\<close>

definition py_round4 :: "real \<Rightarrow> real" where
  "py_round4 x = of_int (round_half_even (x * 10000)) / 10000"

text \<open>
  The loop of \<^verbatim>\<open>retrieve\<close> over \<^verbatim>\<open>raw_results\<close>, with \<^verbatim>\<open>filtered\<close> as accumulator;
  \<^verbatim>\<open>{**metadata, "score": v}\<close> replaces the value of an existing key \<^verbatim>\<open>"score"\<close> in place
  and appends the key otherwise.
\<close>

fun retrieve_loop :: "int \<Rightarrow> real \<Rightarrow> string option \<Rightarrow> (dict \<times> real) list \<Rightarrow> dict list
    \<Rightarrow> dict list" where
  "retrieve_loop top_k threshold pdf_filter [] filtered = filtered"
| "retrieve_loop top_k threshold pdf_filter ((metadata, distance) # rest) filtered =
     (if distance > threshold then retrieve_loop top_k threshold pdf_filter rest filtered
      else if py_truthy pdf_filter \<and> map_of metadata ''pdf_name'' \<noteq> map_option PStr pdf_filter
        then retrieve_loop top_k threshold pdf_filter rest filtered
      else
        (let filtered' = filtered @ [AList.update ''score'' (PFloat (py_round4 distance)) metadata]
         in if int (length filtered') \<ge> top_k then filtered'
            else retrieve_loop top_k threshold pdf_filter rest filtered'))"

text \<open>
  \<^verbatim>\<open>retrieve\<close>, with the embedding model (\<^verbatim>\<open>generate_single_embedding\<close>) as a
  parameter. An exception of \<^verbatim>\<open>faiss_search\<close> passes through.
\<close>

definition retrieve :: "(string \<Rightarrow> ndarray) \<Rightarrow> string \<Rightarrow> int \<Rightarrow> real \<Rightarrow> string option \<Rightarrow> store
    \<Rightarrow> (error + dict list) \<times> store" where
  "retrieve generate_single_embedding query top_k threshold pdf_filter s0 =
     (let query_embedding = generate_single_embedding query;
          (raw, s1) = search query_embedding (fetch_k top_k pdf_filter) s0
      in case raw of
           Inl e \<Rightarrow> (Inl e, s1)
         | Inr raw_results \<Rightarrow>
             (Inr (retrieve_loop top_k threshold pdf_filter raw_results []), s1))"

section \<open>pdf\_loader.py\<close>

text \<open>
  Strings are lists of code points below 256. \<^verbatim>\<open>str.strip()\<close> removes the characters
  for which \<^verbatim>\<open>str.isspace\<close> holds: tab, line feed, vertical tab, form feed, carriage
  return, the four separators \<open>0x1C\<close> to \<open>0x1F\<close>, space, \<open>0x85\<close> and \<open>0xA0\<close>.
\<close>

definition py_isspace :: "char \<Rightarrow> bool" where
  "py_isspace c = (c \<in> set [CHR 0x09, CHR 0x0A, CHR 0x0B, CHR 0x0C, CHR 0x0D, CHR 0x1C,
     CHR 0x1D, CHR 0x1E, CHR 0x1F, CHR 0x20, CHR 0x85, CHR 0xA0])"

definition py_strip :: "string \<Rightarrow> string" where
  "py_strip s = rev (dropWhile py_isspace (rev (dropWhile py_isspace s)))"

text \<open>\<^verbatim>\<open>text.split("\n")\<close>: the pieces between line feeds, empty pieces included.\<close>

fun py_split_nl :: "string \<Rightarrow> string list" where
  "py_split_nl [] = [[]]"
| "py_split_nl (c # cs) =
     (if c = CHR 0x0A then [] # py_split_nl cs
      else (case py_split_nl cs of
              [] \<Rightarrow> [[c]]
            | l # ls \<Rightarrow> (c # l) # ls))"

fun py_join :: "string \<Rightarrow> string list \<Rightarrow> string" where
  "py_join sep [] = []"
| "py_join sep [x] = x"
| "py_join sep (x # y # ys) = x @ sep @ py_join sep (y # ys)"

fun clean_loop :: "string list \<Rightarrow> string list \<Rightarrow> string list" where
  "clean_loop [] cleaned_lines = cleaned_lines"
| "clean_loop (line # lines) cleaned_lines =
     (let line' = py_strip line
      in if line' \<noteq> [] then clean_loop lines (cleaned_lines @ [line'])
         else clean_loop lines cleaned_lines)"

definition clean_text :: "string \<Rightarrow> string" where
  "clean_text txt = py_join '' '' (clean_loop (py_split_nl txt) [])"

text \<open>
  The loop of \<^verbatim>\<open>extract_text_from_pdf\<close> over \<^verbatim>\<open>enumerate(pdf.pages)\<close>: the input is what
  \<^verbatim>\<open>page.extract_text()\<close> gives for each page (\<open>None\<close> when it gives \<^verbatim>\<open>None\<close>). Opening the
  file and writing the text artifact are outside the model.
\<close>

fun extract_loop :: "string \<Rightarrow> nat \<Rightarrow> string option list \<Rightarrow> page_data list \<Rightarrow> page_data list" where
  "extract_loop name i [] pages_data = pages_data"
| "extract_loop name i (raw # rest) pages_data =
     (case raw of
        None \<Rightarrow> extract_loop name (i + 1) rest pages_data
      | Some txt \<Rightarrow>
          if txt \<noteq> [] \<and> py_strip txt \<noteq> [] then
            extract_loop name (i + 1) rest
              (pages_data @ [\<lparr>page = int i + 1, text = clean_text txt, pdf_name = name\<rparr>])
          else extract_loop name (i + 1) rest pages_data)"

definition extract_text_from_pdf :: "string \<Rightarrow> string option list \<Rightarrow> page_data list" where
  "extract_text_from_pdf name raw_pages = extract_loop name 0 raw_pages []"

subsection \<open>The cleaning as the specification words it\<close>

text \<open>
  Collapsing the whitespace inside a line: the maximal runs of non-whitespace characters
  of the line, joined by single spaces.
\<close>

fun spec_words :: "string \<Rightarrow> string \<Rightarrow> string list" where
  "spec_words [] cur = (if cur = [] then [] else [cur])"
| "spec_words (c # cs) cur =
     (if py_isspace c then (if cur = [] then spec_words cs [] else cur # spec_words cs [])
      else spec_words cs (cur @ [c]))"

definition spec_collapse_line :: "string \<Rightarrow> string" where
  "spec_collapse_line line = py_join '' '' (spec_words line [])"

definition spec_clean_text :: "string \<Rightarrow> string" where
  "spec_clean_text txt =
     py_join '' '' (filter (\<lambda>l. l \<noteq> []) (map spec_collapse_line (py_split_nl txt)))"

text \<open>The cleaning with each line stripped at its two ends only.\<close>

definition strip_clean_text :: "string \<Rightarrow> string" where
  "strip_clean_text txt =
     py_join '' '' (filter (\<lambda>l. l \<noteq> []) (map py_strip (py_split_nl txt)))"

section \<open>chunker.py\<close>

text \<open>
  \<^verbatim>\<open>_chunk_pages_simple\<close>, with \<^verbatim>\<open>splitter.split_text\<close> as a parameter. The two loops
  carry \<^verbatim>\<open>all_chunks\<close> and \<^verbatim>\<open>global_chunk_id\<close>.
\<close>

fun chunks_loop :: "int \<Rightarrow> string \<Rightarrow> string list \<Rightarrow> dict list \<times> int \<Rightarrow> dict list \<times> int" where
  "chunks_loop page_num name [] (all_chunks, global_chunk_id) = (all_chunks, global_chunk_id)"
| "chunks_loop page_num name (chunk_text # rest) (all_chunks, global_chunk_id) =
     chunks_loop page_num name rest
       (all_chunks @ [[(''text'', PStr chunk_text), (''page'', PInt page_num),
                       (''chunk_id'', PInt global_chunk_id), (''pdf_name'', PStr name)]],
        global_chunk_id + 1)"

fun pages_loop :: "(string \<Rightarrow> string list) \<Rightarrow> page_data list \<Rightarrow> dict list \<times> int
    \<Rightarrow> dict list \<times> int" where
  "pages_loop split_text [] acc = acc"
| "pages_loop split_text (p # rest) acc =
     (if py_strip (text p) = [] then pages_loop split_text rest acc
      else pages_loop split_text rest
             (chunks_loop (page p) (pdf_name p) (split_text (text p)) acc))"

definition chunk_pages_simple :: "(string \<Rightarrow> string list) \<Rightarrow> page_data list \<Rightarrow> dict list" where
  "chunk_pages_simple split_text pages_data = fst (pages_loop split_text pages_data ([], 0))"

definition chunk_ids :: "dict list \<Rightarrow> pyval option list" where
  "chunk_ids chunks = map (\<lambda>c. map_of c ''chunk_id'') chunks"

section \<open>main.py: indexing an uploaded document\<close>

text \<open>\<^verbatim>\<open>[c["text"] for c in chunks]\<close>; a missing key raises.\<close>

fun texts_of :: "dict list \<Rightarrow> error + pyval list" where
  "texts_of [] = Inr []"
| "texts_of (c # cs) =
     (case map_of c ''text'' of
        None \<Rightarrow> Inl KeyError
      | Some t \<Rightarrow> (case texts_of cs of Inl e \<Rightarrow> Inl e | Inr ts \<Rightarrow> Inr (t # ts)))"

text \<open>
  The steps of \<^verbatim>\<open>upload_pdf\<close> from the extraction to the index, for one uploaded file
  with an accepted name whose pages give \<open>raw_pages\<close>, with rule-based chunking (the default) and the embedding
  model (\<^verbatim>\<open>generate_embeddings\<close>) as a parameter. Each upload chunks the pages of its own
  file only.
\<close>

definition upload_pdf :: "(string \<Rightarrow> string list) \<Rightarrow> (pyval list \<Rightarrow> ndarray) \<Rightarrow> string
    \<Rightarrow> string option list \<Rightarrow> store \<Rightarrow> error option \<times> store" where
  "upload_pdf split_text generate_embeddings filename raw_pages s =
     (let pages_data = extract_text_from_pdf filename raw_pages
      in if pages_data = [] then (Some HTTPException, s)
         else
           (let chunks = chunk_pages_simple split_text pages_data
            in case texts_of chunks of
                 Inl e \<Rightarrow> (Some e, s)
               | Inr texts \<Rightarrow> add_to_index (generate_embeddings texts) chunks s))"

section \<open>Concrete inputs\<close>

definition bio_chunk :: dict where
  "bio_chunk = [(''text'', PStr ''cell''), (''page'', PInt 1), (''chunk_id'', PInt 0),
     (''pdf_name'', PStr ''bio.pdf'')]"

definition chem_chunk :: dict where
  "chem_chunk = [(''text'', PStr ''atom''), (''page'', PInt 1), (''chunk_id'', PInt 0),
     (''pdf_name'', PStr ''chem.pdf'')]"

definition far_chunk :: dict where
  "far_chunk = [(''text'', PStr ''root''), (''page'', PInt 2), (''chunk_id'', PInt 1),
     (''pdf_name'', PStr ''bio.pdf'')]"

definition one_vector :: ndarray where
  "one_vector = \<lparr>shape1 = 2, rows = [[0, 1]]\<rparr>"

definition two_vectors :: ndarray where
  "two_vectors = \<lparr>shape1 = 2, rows = [[0, 1], [1, 1]]\<rparr>"

definition three_vectors :: ndarray where
  "three_vectors = \<lparr>shape1 = 2, rows = [[0, 0], [1, 0], [3, 0]]\<rparr>"

definition wide_vector :: ndarray where
  "wide_vector = \<lparr>shape1 = 3, rows = [[1, 2, 3]]\<rparr>"

text \<open>An index of three vectors of width 2, at squared distances 0, 1 and 9 from the origin.\<close>

definition sample_store :: store where
  "sample_store =
     \<lparr>mem_index = Some \<lparr>index_d = 2, index_xb = [[0, 0], [1, 0], [3, 0]]\<rparr>,
      mem_metadata = [bio_chunk, chem_chunk, far_chunk],
      disk_index = Some \<lparr>index_d = 2, index_xb = [[0, 0], [1, 0], [3, 0]]\<rparr>,
      disk_metadata = Some [bio_chunk, chem_chunk, far_chunk]\<rparr>"

definition origin_embedding :: "string \<Rightarrow> ndarray" where
  "origin_embedding q = \<lparr>shape1 = 2, rows = [[0, 0]]\<rparr>"

definition zero_embeddings :: "pyval list \<Rightarrow> ndarray" where
  "zero_embeddings texts = \<lparr>shape1 = 1, rows = map (\<lambda>t. [0]) texts\<rparr>"

definition whole_text :: "string \<Rightarrow> string list" where
  "whole_text t = [t]"

definition scored_bio :: dict where
  "scored_bio = [(''text'', PStr ''cell''), (''page'', PInt 1), (''chunk_id'', PInt 0),
     (''pdf_name'', PStr ''bio.pdf''), (''score'', PFloat 0)]"

definition scored_chem :: dict where
  "scored_chem = [(''text'', PStr ''atom''), (''page'', PInt 1), (''chunk_id'', PInt 0),
     (''pdf_name'', PStr ''chem.pdf''), (''score'', PFloat 1)]"

definition scored_far :: dict where
  "scored_far = [(''text'', PStr ''root''), (''page'', PInt 2), (''chunk_id'', PInt 1),
     (''pdf_name'', PStr ''bio.pdf''), (''score'', PFloat 9)]"

text \<open>
  The texts of four pages: one with doubled spaces and a blank line, one of whitespace
  only, one without text, and one plain.
\<close>

definition raw_pages_sample :: "string option list" where
  "raw_pages_sample =
     [Some (''  cell  wall '' @ [CHR 0x0A, CHR 0x0A] @ '' nucleus''),
      Some ('' '' @ [CHR 0x0A] @ '' ''), None, Some ''atom'']"

text \<open>Three adds; the second offers a width the index does not have.\<close>

definition sample_ops :: "(ndarray \<times> dict list) list" where
  "sample_ops = [(one_vector, [bio_chunk]), (wide_vector, [far_chunk]),
     (two_vectors, [chem_chunk, far_chunk])]"

section \<open>Properties of the vector store\<close>

lemma ensure_loaded_idem: "ensure_loaded (ensure_loaded s) = ensure_loaded s"
  by (auto simp: ensure_loaded_def split: option.splits)

lemma ensure_loaded_clear: "ensure_loaded (clear_index s) = clear_index s"
  by (simp add: ensure_loaded_def clear_index_def)

lemma ensure_loaded_disk:
  "disk_index (ensure_loaded s) = disk_index s"
  "disk_metadata (ensure_loaded s) = disk_metadata s"
  by (auto simp: ensure_loaded_def split: option.splits)

lemma ensure_loaded_Some: "mem_index s = Some ix \<Longrightarrow> ensure_loaded s = s"
  by (simp add: ensure_loaded_def)

lemma ensure_loaded_sample: "ensure_loaded sample_store = sample_store"
  by (simp add: ensure_loaded_def sample_store_def)

lemma ensure_loaded_empty: "ensure_loaded empty_store = empty_store"
  by (simp add: ensure_loaded_def empty_store_def)

subsection \<open>What one add does\<close>

lemma add_to_index_mismatch:
  assumes "mem_index (ensure_loaded s) = Some ix" and "shape1 embeddings \<noteq> index_d ix"
  shows "add_to_index embeddings chunks_metadata s = (Some AssertionError, ensure_loaded s)"
  using assms by (simp add: add_to_index_def Let_def faiss_add_def)

lemma add_to_index_fresh:
  assumes "mem_index (ensure_loaded s) = None"
  shows "add_to_index embeddings chunks_metadata s =
    (None, (ensure_loaded s)
       \<lparr>mem_index := Some \<lparr>index_d = shape1 embeddings, index_xb = rows embeddings\<rparr>,
        mem_metadata := chunks_metadata,
        disk_index := Some \<lparr>index_d = shape1 embeddings, index_xb = rows embeddings\<rparr>,
        disk_metadata := Some chunks_metadata\<rparr>)"
  using assms by (simp add: add_to_index_def Let_def faiss_add_def save_def IndexFlatL2_def)

lemma add_to_index_existing:
  assumes "mem_index (ensure_loaded s) = Some ix" and "shape1 embeddings = index_d ix"
  shows "add_to_index embeddings chunks_metadata s =
    (None, (ensure_loaded s)
       \<lparr>mem_index := Some (ix\<lparr>index_xb := index_xb ix @ rows embeddings\<rparr>),
        mem_metadata := mem_metadata (ensure_loaded s) @ chunks_metadata,
        disk_index := Some (ix\<lparr>index_xb := index_xb ix @ rows embeddings\<rparr>),
        disk_metadata := Some (mem_metadata (ensure_loaded s) @ chunks_metadata)\<rparr>)"
  using assms by (simp add: add_to_index_def Let_def faiss_add_def save_def)

lemma add_to_index_accepted:
  assumes "case mem_index (ensure_loaded s) of
             None \<Rightarrow> True | Some ix \<Rightarrow> shape1 embeddings = index_d ix"
  shows "fst (add_to_index embeddings chunks_metadata s) = None"
    and "fst (get_index_size (snd (add_to_index embeddings chunks_metadata s))) =
           fst (get_index_size s) + length (rows embeddings)"
    and "metadata_log (snd (add_to_index embeddings chunks_metadata s)) =
           (if mem_index (ensure_loaded s) = None then [] else metadata_log s) @ chunks_metadata"
proof -
  have "fst (add_to_index embeddings chunks_metadata s) = None \<and>
    fst (get_index_size (snd (add_to_index embeddings chunks_metadata s))) =
      fst (get_index_size s) + length (rows embeddings) \<and>
    metadata_log (snd (add_to_index embeddings chunks_metadata s)) =
      (if mem_index (ensure_loaded s) = None then [] else metadata_log s) @ chunks_metadata"
  proof (cases "mem_index (ensure_loaded s)")
    case None
    show ?thesis
      by (simp add: add_to_index_fresh [OF None] None get_index_size_def metadata_log_def
            ensure_loaded_Some ntotal_def)
  next
    case (Some ix)
    with assms have w: "shape1 embeddings = index_d ix" by simp
    show ?thesis
      by (simp add: add_to_index_existing [OF Some w] Some get_index_size_def metadata_log_def
            ensure_loaded_Some ntotal_def)
  qed
  then show "fst (add_to_index embeddings chunks_metadata s) = None"
    and "fst (get_index_size (snd (add_to_index embeddings chunks_metadata s))) =
           fst (get_index_size s) + length (rows embeddings)"
    and "metadata_log (snd (add_to_index embeddings chunks_metadata s)) =
           (if mem_index (ensure_loaded s) = None then [] else metadata_log s) @ chunks_metadata"
    by simp_all
qed

lemma add_to_index_parallel:
  assumes inv: "fst (get_index_size s) = length (metadata_log s)"
    and len: "length (rows embeddings) = length chunks_metadata"
  shows "fst (get_index_size (snd (add_to_index embeddings chunks_metadata s))) =
     length (metadata_log (snd (add_to_index embeddings chunks_metadata s)))"
proof (cases "mem_index (ensure_loaded s)")
  case None
  then have "case mem_index (ensure_loaded s) of
      None \<Rightarrow> True | Some ix \<Rightarrow> shape1 embeddings = index_d ix" by simp
  from add_to_index_accepted(2,3) [OF this, of chunks_metadata] None len
  show ?thesis by (simp add: get_index_size_def)
next
  case (Some ix)
  show ?thesis
  proof (cases "shape1 embeddings = index_d ix")
    case True
    with Some have "case mem_index (ensure_loaded s) of
        None \<Rightarrow> True | Some ix \<Rightarrow> shape1 embeddings = index_d ix" by simp
    from add_to_index_accepted(2,3) [OF this, of chunks_metadata] Some len inv
    show ?thesis by simp
  next
    case False
    from add_to_index_mismatch [OF Some False] inv show ?thesis
      by (simp add: get_index_size_def metadata_log_def ensure_loaded_idem)
  qed
qed

lemma run_adds_parallel:
  "fst (get_index_size s) = length (metadata_log s) \<Longrightarrow>
   \<forall>(embeddings, chunks_metadata) \<in> set ops. length (rows embeddings) = length chunks_metadata \<Longrightarrow>
   fst (get_index_size (run_adds ops s)) = length (metadata_log (run_adds ops s))"
proof (induction ops arbitrary: s)
  case Nil
  then show ?case by simp
next
  case (Cons a ops)
  obtain e md where a: "a = (e, md)" by (cases a)
  with Cons.prems have "length (rows e) = length md" by simp
  from add_to_index_parallel [OF Cons.prems(1) this] Cons.prems(2) a
  show ?case by (simp add: Cons.IH)
qed

subsection \<open>What search returns\<close>

lemma faiss_search_labels:
  assumes "faiss_search ix x k = Inr (ds, ls)"
  shows "\<forall>(dst, i) \<in> set (zip ds ls). i = - 1 \<or> (0 \<le> i \<and> i < int (ntotal ix))"
proof -
  from assms obtain q qs where r: "rows x = q # qs"
    by (auto simp: faiss_search_def split: if_splits list.splits)
  define ranked where "ranked = take (nat k)
     (sort_key fst (zip (map (l2sqr q) (index_xb ix)) (map int [0..<ntotal ix])))"
  define padded where "padded = ranked @ replicate (nat k - length ranked) (FLT_MAX, - 1 :: int)"
  from assms r have "ds = map fst padded" "ls = map snd padded"
    by (auto simp: faiss_search_def Let_def ranked_def padded_def split: if_splits)
  then have z: "zip ds ls = padded" by (simp add: zip_map_fst_snd)
  have "set ranked \<subseteq> set (zip (map (l2sqr q) (index_xb ix)) (map int [0..<ntotal ix]))"
    unfolding ranked_def using set_take_subset by fastforce
  then have "\<forall>(dst, i) \<in> set ranked. 0 \<le> i \<and> i < int (ntotal ix)"
    by (auto dest!: subsetD set_zip_rightD)
  then show ?thesis unfolding z padded_def by auto
qed

lemma search_loop_hits:
  "\<forall>(dst, i) \<in> set xs. i = - 1 \<or> (0 \<le> i \<and> i < int n) \<Longrightarrow>
   \<exists>hits. search_loop md xs acc = Inr (acc @ map (\<lambda>(dst, i). (md ! i, dst)) hits) \<and>
          (\<forall>(dst, i) \<in> set hits. i < n \<and> i < length md)"
proof (induction xs arbitrary: acc)
  case Nil
  show ?case by (rule exI [of _ "[]"]) simp
next
  case (Cons a xs)
  obtain dst idx where a: "a = (dst, idx)" by (cases a)
  from Cons.prems have rest: "\<forall>(dst, i) \<in> set xs. i = - 1 \<or> (0 \<le> i \<and> i < int n)" by simp
  from Cons.prems a have idx: "idx = - 1 \<or> (0 \<le> idx \<and> idx < int n)" by simp
  show ?case
  proof (cases "idx \<noteq> - 1 \<and> idx < int (length md)")
    case False
    with Cons.IH [OF rest, of acc] a show ?thesis by auto
  next
    case True
    with idx have b: "0 \<le> idx" "idx < int n" "idx < int (length md)" by auto
    then have g: "py_getitem md idx = Inr (md ! nat idx)"
      by (simp add: py_getitem_def)
    from Cons.IH [OF rest, of "acc @ [(md ! nat idx, dst)]"]
    obtain hits where h: "search_loop md xs (acc @ [(md ! nat idx, dst)]) =
        Inr ((acc @ [(md ! nat idx, dst)]) @ map (\<lambda>(dst, i). (md ! i, dst)) hits)"
        "\<forall>(dst, i) \<in> set hits. i < n \<and> i < length md" by blast
    show ?thesis
      by (rule exI [of _ "(dst, nat idx) # hits"]) (use a True g h b in auto)
  qed
qed

lemma search_hits:
  assumes "fst (search q k s) = Inr res"
  shows "\<exists>hits. res = map (\<lambda>(dst, i). (metadata_log s ! i, dst)) hits \<and>
     (\<forall>(dst, i) \<in> set hits. i < fst (get_index_size s) \<and> i < length (metadata_log s))"
proof (cases "mem_index (ensure_loaded s)")
  case None
  with assms have "res = []" by (simp add: search_def Let_def)
  then show ?thesis by (intro exI [of _ "[]"]) simp
next
  case (Some ix)
  show ?thesis
  proof (cases "ntotal ix = 0")
    case True
    with Some assms have "res = []" by (simp add: search_def Let_def)
    then show ?thesis by (intro exI [of _ "[]"]) simp
  next
    case False
    with Some assms obtain ds ls where f: "faiss_search ix q k = Inr (ds, ls)"
      and l: "search_loop (metadata_log s) (zip ds ls) [] = Inr res"
      by (auto simp: search_def Let_def metadata_log_def split: sum.splits)
    from search_loop_hits [OF faiss_search_labels [OF f], of "metadata_log s" "[]"] l
    show ?thesis using Some by (auto simp: get_index_size_def Let_def)
  qed
qed

lemma search_sample:
  "fst (search (origin_embedding q) 5 sample_store) =
     Inr [(bio_chunk, 0), (chem_chunk, 1), (far_chunk, 9)]"
  by (simp add: search_def ensure_loaded_sample Let_def)
     (simp add: sample_store_def ntotal_def faiss_search_def origin_embedding_def
        l2sqr_def py_getitem_def FLT_MAX_def upt_rec eval_nat_numeral)

text \<open>
  C1, as stated, fails: one add of one vector with two metadata entries on the empty
  index raises nothing and leaves one vector beside a log of two entries.
\<close>

theorem parallel_invariant_counterexample:
  "fst (get_index_size (run_adds [(one_vector, [bio_chunk, far_chunk])] empty_store)) = 1 \<and>
   length (metadata_log (run_adds [(one_vector, [bio_chunk, far_chunk])] empty_store)) = 2"
  by (simp add: add_to_index_def Let_def faiss_add_def get_index_size_def metadata_log_def
        save_def IndexFlatL2_def ntotal_def ensure_loaded_def empty_store_def one_vector_def)

text \<open>
  C1, amended: from an index whose vector count equals the length of its metadata log
  (the empty index is one), every sequence of adds that each offer as many metadata
  entries as vectors, failed adds included, leaves the vector count equal to the length
  of the log; and in every state at all, also one where the two numbers differ, each
  pair that search returns is the log entry at a position below both the vector count
  and the length of the log.
\<close>

theorem run_adds_parallel_invariant:
  "(fst (get_index_size s) = length (metadata_log s) \<and>
    (\<forall>(embeddings, chunks_metadata) \<in> set ops.
       length (rows embeddings) = length chunks_metadata) \<longrightarrow>
    fst (get_index_size (run_adds ops s)) = length (metadata_log (run_adds ops s))) \<and>
   (\<forall>q k res. fst (search q k t) = Inr res \<longrightarrow>
      (\<exists>hits. res = map (\<lambda>(dst, i). (metadata_log t ! i, dst)) hits \<and>
         (\<forall>(dst, i) \<in> set hits. i < fst (get_index_size t) \<and>
            i < length (metadata_log t))))"
  using run_adds_parallel [of s ops] search_hits [of _ _ t] by blast

theorem run_adds_parallel_invariant_witness:
  "fst (get_index_size empty_store) = length (metadata_log empty_store) \<and>
   list_all (\<lambda>(embeddings, chunks_metadata). length (rows embeddings) = length chunks_metadata)
     sample_ops \<and>
   fst (get_index_size (run_adds sample_ops empty_store)) = 3 \<and>
   metadata_log (run_adds sample_ops empty_store) = [bio_chunk, chem_chunk, far_chunk] \<and>
   fst (get_index_size (run_adds [(one_vector, [bio_chunk, far_chunk])] empty_store)) = 1 \<and>
   metadata_log (run_adds [(one_vector, [bio_chunk, far_chunk])] empty_store) =
     [bio_chunk, far_chunk] \<and>
   fst (search (origin_embedding ''what is a cell'') 2
         (run_adds [(one_vector, [bio_chunk, far_chunk])] empty_store)) =
     Inr [(bio_chunk, 1)] \<and>
   (\<exists>hits. [(bio_chunk, 1 :: real)] =
       map (\<lambda>(dst, i).
         (metadata_log (run_adds [(one_vector, [bio_chunk, far_chunk])] empty_store) ! i, dst))
         hits \<and>
     (\<forall>(dst, i) \<in> set hits.
        i < fst (get_index_size (run_adds [(one_vector, [bio_chunk, far_chunk])] empty_store)) \<and>
        i < length (metadata_log (run_adds [(one_vector, [bio_chunk, far_chunk])] empty_store))))"
proof -
  have h1: "fst (get_index_size empty_store) = length (metadata_log empty_store)"
    by (simp add: get_index_size_def metadata_log_def ensure_loaded_empty)
       (simp add: empty_store_def)
  have h2: "\<forall>(embeddings, chunks_metadata) \<in> set sample_ops.
      length (rows embeddings) = length chunks_metadata"
    by (simp add: sample_ops_def one_vector_def wide_vector_def two_vectors_def)
  have st: "run_adds sample_ops empty_store =
     \<lparr>mem_index = Some \<lparr>index_d = 2, index_xb = [[0, 1], [0, 1], [1, 1]]\<rparr>,
      mem_metadata = [bio_chunk, chem_chunk, far_chunk],
      disk_index = Some \<lparr>index_d = 2, index_xb = [[0, 1], [0, 1], [1, 1]]\<rparr>,
      disk_metadata = Some [bio_chunk, chem_chunk, far_chunk]\<rparr>"
    by (simp add: sample_ops_def add_to_index_def Let_def faiss_add_def
          save_def IndexFlatL2_def ensure_loaded_def empty_store_def one_vector_def
          wide_vector_def two_vectors_def)
  have n: "metadata_log (run_adds sample_ops empty_store) = [bio_chunk, chem_chunk, far_chunk]"
    by (simp add: st metadata_log_def ensure_loaded_def)
  have dr: "run_adds [(one_vector, [bio_chunk, far_chunk])] empty_store =
     \<lparr>mem_index = Some \<lparr>index_d = 2, index_xb = [[0, 1]]\<rparr>,
      mem_metadata = [bio_chunk, far_chunk],
      disk_index = Some \<lparr>index_d = 2, index_xb = [[0, 1]]\<rparr>,
      disk_metadata = Some [bio_chunk, far_chunk]\<rparr>"
    by (simp add: add_to_index_def Let_def faiss_add_def save_def IndexFlatL2_def
          ensure_loaded_def empty_store_def one_vector_def)
  have dsz: "fst (get_index_size (run_adds [(one_vector, [bio_chunk, far_chunk])] empty_store)) = 1"
    by (simp only: dr) (simp add: get_index_size_def ensure_loaded_def ntotal_def)
  have dn: "metadata_log (run_adds [(one_vector, [bio_chunk, far_chunk])] empty_store) =
      [bio_chunk, far_chunk]"
    by (simp only: dr) (simp add: metadata_log_def ensure_loaded_def)
  have sr: "fst (search (origin_embedding ''what is a cell'') 2
         (run_adds [(one_vector, [bio_chunk, far_chunk])] empty_store)) =
     Inr [(bio_chunk, 1)]"
    by (simp only: dr)
       (simp add: search_def ensure_loaded_def Let_def ntotal_def faiss_search_def
          origin_embedding_def l2sqr_def py_getitem_def FLT_MAX_def upt_rec eval_nat_numeral)
  note c = run_adds_parallel_invariant [of empty_store sample_ops
      "run_adds [(one_vector, [bio_chunk, far_chunk])] empty_store"]
  from conjunct1 [OF c, rule_format, OF conjI [OF h1 h2]] n
  have sz: "fst (get_index_size (run_adds sample_ops empty_store)) = 3" by simp
  from conjunct2 [OF c, rule_format, OF sr]
  have hits: "\<exists>hits. [(bio_chunk, 1 :: real)] =
       map (\<lambda>(dst, i).
         (metadata_log (run_adds [(one_vector, [bio_chunk, far_chunk])] empty_store) ! i, dst))
         hits \<and>
     (\<forall>(dst, i) \<in> set hits.
        i < fst (get_index_size (run_adds [(one_vector, [bio_chunk, far_chunk])] empty_store)) \<and>
        i < length (metadata_log (run_adds [(one_vector, [bio_chunk, far_chunk])] empty_store)))" .
  from h2 have h2': "list_all (\<lambda>(embeddings, chunks_metadata).
      length (rows embeddings) = length chunks_metadata) sample_ops"
    by (simp add: list_all_iff)
  from h1 h2' sz n dsz dn sr hits show ?thesis by (intro conjI)
qed

text \<open>
  C2, as stated, fails: two vectors offered with one metadata entry are both appended,
  with the one entry, and nothing is raised.
\<close>

theorem add_to_index_unequal_lengths_counterexample:
  "fst (add_to_index two_vectors [bio_chunk] empty_store) = None \<and>
   fst (get_index_size (snd (add_to_index two_vectors [bio_chunk] empty_store))) = 2 \<and>
   metadata_log (snd (add_to_index two_vectors [bio_chunk] empty_store)) = [bio_chunk]"
  by (simp add: add_to_index_def Let_def faiss_add_def get_index_size_def metadata_log_def
        save_def IndexFlatL2_def ntotal_def ensure_loaded_def empty_store_def two_vectors_def)

text \<open>
  C2, amended: an add does not compare the number of vectors with the number of metadata
  entries. Whenever the width of the vectors is accepted (there is no index yet, or the
  width is that of the index), the add raises nothing and appends all the vectors and all
  the metadata entries: the vector count grows by the number of vectors and the log by the
  entries offered, whether or not the two numbers agree.
\<close>

theorem add_to_index_appends_all:
  assumes "case mem_index (ensure_loaded s) of
             None \<Rightarrow> True | Some ix \<Rightarrow> shape1 embeddings = index_d ix"
  shows "fst (add_to_index embeddings chunks_metadata s) = None \<and>
    fst (get_index_size (snd (add_to_index embeddings chunks_metadata s))) =
      fst (get_index_size s) + length (rows embeddings) \<and>
    metadata_log (snd (add_to_index embeddings chunks_metadata s)) =
      (if mem_index (ensure_loaded s) = None then [] else metadata_log s) @ chunks_metadata"
  using add_to_index_accepted [OF assms] by simp

theorem add_to_index_appends_all_witness:
  "(case mem_index (ensure_loaded sample_store) of
      None \<Rightarrow> True | Some ix \<Rightarrow> shape1 one_vector = index_d ix) \<and>
   length (rows one_vector) \<noteq> length [bio_chunk, chem_chunk] \<and>
   fst (add_to_index one_vector [bio_chunk, chem_chunk] sample_store) = None \<and>
   fst (get_index_size (snd (add_to_index one_vector [bio_chunk, chem_chunk] sample_store))) = 4 \<and>
   metadata_log (snd (add_to_index one_vector [bio_chunk, chem_chunk] sample_store)) =
     [bio_chunk, chem_chunk, far_chunk, bio_chunk, chem_chunk]"
proof -
  have h: "case mem_index (ensure_loaded sample_store) of
      None \<Rightarrow> True | Some ix \<Rightarrow> shape1 one_vector = index_d ix"
    by (simp add: ensure_loaded_sample) (simp add: sample_store_def one_vector_def)
  have m: "mem_index (ensure_loaded sample_store) \<noteq> None"
    "metadata_log sample_store = [bio_chunk, chem_chunk, far_chunk]"
    "fst (get_index_size sample_store) = 3" "length (rows one_vector) = 1"
    by (simp_all add: ensure_loaded_sample metadata_log_def get_index_size_def)
       (simp_all add: sample_store_def ntotal_def one_vector_def)
  from add_to_index_appends_all [OF h, of "[bio_chunk, chem_chunk]"] h m
  show ?thesis by simp
qed

text \<open>
  C4: when the index exists with width \<open>D\<close> (it may have been loaded from its files by this
  very call), an add of vectors of another width raises, and afterwards the vector count,
  the metadata log, the stored vectors and both files are what they were.
\<close>

theorem dimension_fixation:
  assumes "mem_index (ensure_loaded s) = Some ix" and "shape1 embeddings \<noteq> index_d ix"
  shows "fst (add_to_index embeddings chunks_metadata s) = Some AssertionError \<and>
    fst (get_index_size (snd (add_to_index embeddings chunks_metadata s))) = fst (get_index_size s) \<and>
    metadata_log (snd (add_to_index embeddings chunks_metadata s)) = metadata_log s \<and>
    mem_index (ensure_loaded (snd (add_to_index embeddings chunks_metadata s))) = Some ix \<and>
    disk_index (snd (add_to_index embeddings chunks_metadata s)) = disk_index s \<and>
    disk_metadata (snd (add_to_index embeddings chunks_metadata s)) = disk_metadata s"
  using assms
  by (simp add: add_to_index_mismatch get_index_size_def metadata_log_def ensure_loaded_idem
        ensure_loaded_disk)

theorem dimension_fixation_witness:
  "mem_index (ensure_loaded sample_store) =
     Some \<lparr>index_d = 2, index_xb = [[0, 0], [1, 0], [3, 0]]\<rparr> \<and>
   shape1 wide_vector \<noteq> index_d \<lparr>index_d = 2, index_xb = [[0, 0], [1, 0], [3, 0]]\<rparr> \<and>
   fst (add_to_index wide_vector [far_chunk] sample_store) = Some AssertionError \<and>
   fst (get_index_size (snd (add_to_index wide_vector [far_chunk] sample_store))) = 3 \<and>
   metadata_log (snd (add_to_index wide_vector [far_chunk] sample_store)) =
     [bio_chunk, chem_chunk, far_chunk]"
proof -
  have h1: "mem_index (ensure_loaded sample_store) =
     Some \<lparr>index_d = 2, index_xb = [[0, 0], [1, 0], [3, 0]]\<rparr>"
    by (simp add: ensure_loaded_sample) (simp add: sample_store_def)
  have h2: "shape1 wide_vector \<noteq> index_d \<lparr>index_d = 2, index_xb = [[0, 0], [1, 0], [3, 0]]\<rparr>"
    by (simp add: wide_vector_def)
  have m: "metadata_log sample_store = [bio_chunk, chem_chunk, far_chunk]"
    "fst (get_index_size sample_store) = 3"
    by (simp_all add: ensure_loaded_sample metadata_log_def get_index_size_def)
       (simp_all add: sample_store_def ntotal_def)
  from dimension_fixation [OF h1 h2, of "[far_chunk]"] h1 h2 m show ?thesis by simp
qed

text \<open>
  C7: clearing a cleared index changes nothing, and after a clear the vector count is 0
  and the set of distinct sources is empty, from any state.
\<close>

theorem clear_index_idempotent:
  "clear_index (clear_index s) = clear_index s \<and>
   fst (get_index_size (clear_index s)) = 0 \<and>
   fst (get_indexed_pdfs (clear_index s)) = {} \<and>
   snd (get_index_size (clear_index s)) = clear_index s \<and>
   snd (get_indexed_pdfs (clear_index s)) = clear_index s"
  by (simp add: get_index_size_def get_indexed_pdfs_def ensure_loaded_clear)
     (simp add: clear_index_def)

theorem clear_index_idempotent_witness:
  "fst (get_index_size sample_store) = 3 \<and>
   clear_index (clear_index sample_store) = clear_index sample_store \<and>
   fst (get_index_size (clear_index sample_store)) = 0 \<and>
   fst (get_indexed_pdfs (clear_index sample_store)) = {}"
proof -
  have "fst (get_index_size sample_store) = 3"
    by (simp add: ensure_loaded_sample get_index_size_def) (simp add: sample_store_def ntotal_def)
  with clear_index_idempotent [of sample_store] show ?thesis by simp
qed

text \<open>
  C8: on an index that holds no vectors, search returns the empty list and raises
  nothing, for every query array and every \<open>top_k\<close>.
\<close>

theorem search_empty_index:
  "fst (get_index_size s) = 0 \<Longrightarrow> fst (search query_embedding top_k s) = Inr []"
  by (auto simp: get_index_size_def search_def Let_def split: option.splits)

theorem search_empty_index_witness:
  "fst (get_index_size empty_store) = 0 \<and>
   fst (search (origin_embedding ''what is a cell'') 5 empty_store) = Inr []"
proof -
  have h: "fst (get_index_size empty_store) = 0"
    by (simp add: get_index_size_def ensure_loaded_empty) (simp add: empty_store_def)
  from search_empty_index [OF h] h show ?thesis by simp
qed

section \<open>Properties of the retriever\<close>

text \<open>
  The loop in closed form: the candidates that pass both tests, each with its score, cut
  after \<open>top_k\<close> results, and after the first result when \<open>top_k\<close> is already reached.
\<close>

lemma retrieve_loop_take:
  "retrieve_loop top_k threshold pdf_filter raw filtered =
     filtered @ take (nat (max 1 (top_k - int (length filtered))))
       (map (\<lambda>(m, d). AList.update ''score'' (PFloat (py_round4 d)) m)
         (filter (\<lambda>(m, d). \<not> threshold < d \<and>
             \<not> (py_truthy pdf_filter \<and> map_of m ''pdf_name'' \<noteq> map_option PStr pdf_filter))
           raw))"
proof (induction raw arbitrary: filtered)
  case Nil
  show ?case by simp
next
  case (Cons a raw)
  obtain m d where a: "a = (m, d)" by (cases a)
  show ?case
  proof (cases "\<not> threshold < d \<and>
      \<not> (py_truthy pdf_filter \<and> map_of m ''pdf_name'' \<noteq> map_option PStr pdf_filter)")
    case False
    then show ?thesis using a Cons.IH [of filtered] by auto
  next
    case True
    show ?thesis
    proof (cases "top_k \<le> int (length filtered) + 1")
      case stop: True
      then have "nat (max 1 (top_k - int (length filtered))) = Suc 0" by simp
      with True stop a show ?thesis by (auto simp: Let_def)
    next
      case go: False
      then obtain n where n: "nat (max 1 (top_k - int (length filtered))) = Suc n"
        and n': "nat (max 1 (top_k - (int (length filtered) + 1))) = n"
        by (cases "nat (max 1 (top_k - int (length filtered)))") auto
      from True go a n n'
        Cons.IH [of "filtered @ [AList.update ''score'' (PFloat (py_round4 d)) m]"]
      show ?thesis by (auto simp: Let_def add.commute)
    qed
  qed
qed

lemma length_filter_mono:
  "(\<And>x. x \<in> set xs \<Longrightarrow> P x \<Longrightarrow> Q x) \<Longrightarrow> length (filter P xs) \<le> length (filter Q xs)"
  by (induction xs) auto

lemma retrieve_loop_mono:
  assumes "t1 \<le> t2"
  shows "length (retrieve_loop top_k t1 pdf_filter raw []) \<le>
         length (retrieve_loop top_k t2 pdf_filter raw [])"
proof -
  have "length (filter (\<lambda>(m, d). \<not> t1 < d \<and>
             \<not> (py_truthy pdf_filter \<and> map_of m ''pdf_name'' \<noteq> map_option PStr pdf_filter)) raw)
     \<le> length (filter (\<lambda>(m, d). \<not> t2 < d \<and>
             \<not> (py_truthy pdf_filter \<and> map_of m ''pdf_name'' \<noteq> map_option PStr pdf_filter)) raw)"
    using assms by (intro length_filter_mono) auto
  then show ?thesis by (simp add: retrieve_loop_take)
qed

lemma retrieve_loop_source:
  assumes "X \<noteq> []" and "p \<in> set (retrieve_loop top_k threshold (Some X) raw [])"
  shows "map_of p ''pdf_name'' = Some (PStr X)"
proof -
  from assms(2) obtain m d where "p = AList.update ''score'' (PFloat (py_round4 d)) m"
    and "\<not> (py_truthy (Some X) \<and> map_of m ''pdf_name'' \<noteq> map_option PStr (Some X))"
    by (auto simp: retrieve_loop_take dest!: in_set_takeD)
  with assms(1) show ?thesis by (simp add: py_truthy_def update_conv')
qed

lemma retrieve_loop_empty_filter:
  "retrieve_loop top_k threshold (Some []) raw filtered =
   retrieve_loop top_k threshold None raw filtered"
  by (simp add: retrieve_loop_take py_truthy_def)

lemma retrieve_sample:
  "fst (retrieve origin_embedding q 5 t f sample_store) =
     Inr (retrieve_loop 5 t f [(bio_chunk, 0), (chem_chunk, 1), (far_chunk, 9)] [])"
  if "\<not> py_truthy f" for f
  using that search_sample [of q]
  by (cases "search (origin_embedding q) 5 sample_store")
     (simp add: retrieve_def fetch_k_def del: retrieve_loop.simps)

lemma py_round4_0: "py_round4 0 = 0" and py_round4_1: "py_round4 1 = 1"
  and py_round4_9: "py_round4 9 = 9"
  by (simp_all add: py_round4_def round_half_even_def)

lemma search_sample_15:
  "fst (search (origin_embedding q) 15 sample_store) =
     Inr [(bio_chunk, 0), (chem_chunk, 1), (far_chunk, 9)]"
  by (simp add: search_def ensure_loaded_sample Let_def)
     (simp add: sample_store_def ntotal_def faiss_search_def origin_embedding_def
        l2sqr_def py_getitem_def FLT_MAX_def upt_rec eval_nat_numeral)

lemma retrieve_sample_filtered:
  "fst (retrieve origin_embedding q 5 t (Some ''bio.pdf'') sample_store) =
     Inr (retrieve_loop 5 t (Some ''bio.pdf'') [(bio_chunk, 0), (chem_chunk, 1), (far_chunk, 9)] [])"
  using search_sample_15 [of q]
  by (cases "search (origin_embedding q) 15 sample_store")
     (simp add: retrieve_def fetch_k_def py_truthy_def del: retrieve_loop.simps)

text \<open>
  C5: with everything but the threshold fixed, raising the threshold never lowers the
  number of passages returned; a query that faiss rejects is rejected at both thresholds.
\<close>

theorem threshold_monotone:
  assumes "t1 \<le> t2"
  shows "case (fst (retrieve generate_single_embedding query top_k t1 pdf_filter s),
               fst (retrieve generate_single_embedding query top_k t2 pdf_filter s)) of
           (Inr r1, Inr r2) \<Rightarrow> length r1 \<le> length r2
         | (Inl e1, Inl e2) \<Rightarrow> e1 = e2
         | _ \<Rightarrow> False"
  using retrieve_loop_mono [OF assms]
  by (auto simp: retrieve_def Let_def split: prod.splits sum.splits)

theorem threshold_monotone_witness:
  "(1 / 2 :: real) \<le> 12 / 10 \<and>
   fst (retrieve origin_embedding ''what is a cell'' 5 (1 / 2) None sample_store) =
     Inr [scored_bio] \<and>
   fst (retrieve origin_embedding ''what is a cell'' 5 (12 / 10) None sample_store) =
     Inr [scored_bio, scored_chem] \<and>
   length [scored_bio] \<le> length [scored_bio, scored_chem]"
proof -
  have h: "(1 / 2 :: real) \<le> 12 / 10" by simp
  have r1: "fst (retrieve origin_embedding ''what is a cell'' 5 (1 / 2) None sample_store) =
     Inr [scored_bio]"
    by (simp add: retrieve_sample py_truthy_def py_round4_0 bio_chunk_def scored_bio_def)
  have r2: "fst (retrieve origin_embedding ''what is a cell'' 5 (12 / 10) None sample_store) =
     Inr [scored_bio, scored_chem]"
    by (simp add: retrieve_sample py_truthy_def py_round4_0 py_round4_1 bio_chunk_def
          chem_chunk_def scored_bio_def scored_chem_def)
  from threshold_monotone [OF h, of origin_embedding "''what is a cell''" 5 None sample_store]
  have "length [scored_bio] \<le> length [scored_bio, scored_chem]"
    by (simp add: r1 r2)
  with h r1 r2 show ?thesis by (intro conjI)
qed

text \<open>
  C10: the empty string as \<^verbatim>\<open>pdf_filter\<close> gives the result and the state that \<^verbatim>\<open>None\<close>
  gives, and the number of candidates fetched is \<open>top_k\<close> for both.
\<close>

theorem empty_filter_is_no_filter:
  "retrieve generate_single_embedding query top_k threshold (Some []) s =
     retrieve generate_single_embedding query top_k threshold None s \<and>
   fetch_k top_k (Some []) = top_k \<and> fetch_k top_k None = top_k"
  by (simp add: retrieve_def fetch_k_def py_truthy_def retrieve_loop_empty_filter
        split: prod.splits sum.splits)

theorem empty_filter_is_no_filter_witness:
  "retrieve origin_embedding ''what is an atom'' 5 (12 / 10) (Some []) sample_store =
     retrieve origin_embedding ''what is an atom'' 5 (12 / 10) None sample_store \<and>
   fst (retrieve origin_embedding ''what is an atom'' 5 (12 / 10) None sample_store) =
     Inr [scored_bio, scored_chem] \<and>
   fetch_k 5 (Some []) = 5 \<and> fetch_k 5 (Some ''bio.pdf'') = 15"
proof -
  have r: "fst (retrieve origin_embedding ''what is an atom'' 5 (12 / 10) None sample_store) =
     Inr [scored_bio, scored_chem]"
    by (simp add: retrieve_sample py_truthy_def py_round4_0 py_round4_1 bio_chunk_def
          chem_chunk_def scored_bio_def scored_chem_def)
  have f: "fetch_k 5 (Some ''bio.pdf'') = 15" by (simp add: fetch_k_def py_truthy_def)
  from empty_filter_is_no_filter [of origin_embedding "''what is an atom''" 5 "12 / 10" sample_store]
    r f
  show ?thesis by simp
qed

text \<open>
  C6, as stated, fails for the filter \<^verbatim>\<open>""\<close>, which is not \<^verbatim>\<open>None\<close>: the passages of
  both documents come back, none of them with the empty string as its \<^verbatim>\<open>pdf_name\<close>.
\<close>

theorem source_filter_empty_string_counterexample:
  "fst (retrieve origin_embedding ''what is a cell'' 5 (12 / 10) (Some []) sample_store) =
     Inr [scored_bio, scored_chem] \<and>
   map_of scored_bio ''pdf_name'' = Some (PStr ''bio.pdf'') \<and>
   map_of scored_chem ''pdf_name'' = Some (PStr ''chem.pdf'') \<and>
   PStr ''bio.pdf'' \<noteq> PStr [] \<and> PStr ''chem.pdf'' \<noteq> PStr []"
  by (simp add: retrieve_sample py_truthy_def py_round4_0 py_round4_1 bio_chunk_def
        chem_chunk_def scored_bio_def scored_chem_def)

text \<open>
  C6, amended: for a source filter that is not the empty string, every passage returned
  has that filter as its \<^verbatim>\<open>pdf_name\<close>.
\<close>

theorem source_filter_exact:
  assumes "X \<noteq> []"
    and "fst (retrieve generate_single_embedding query top_k threshold (Some X) s) = Inr res"
  shows "\<forall>p \<in> set res. map_of p ''pdf_name'' = Some (PStr X)"
  using assms retrieve_loop_source [OF assms(1)]
  by (auto simp: retrieve_def Let_def split: prod.splits sum.splits)

theorem source_filter_exact_witness:
  "''bio.pdf'' \<noteq> [] \<and>
   fst (retrieve origin_embedding ''what is a cell'' 5 10 (Some ''bio.pdf'') sample_store) =
     Inr [scored_bio, scored_far] \<and>
   list_all (\<lambda>p. map_of p ''pdf_name'' = Some (PStr ''bio.pdf'')) [scored_bio, scored_far]"
proof -
  have h: "''bio.pdf'' \<noteq> []" by simp
  have r: "fst (retrieve origin_embedding ''what is a cell'' 5 10 (Some ''bio.pdf'') sample_store) =
     Inr [scored_bio, scored_far]"
    by (simp add: retrieve_sample_filtered py_truthy_def py_round4_0 py_round4_9 bio_chunk_def
          chem_chunk_def far_chunk_def scored_bio_def scored_far_def)
  from source_filter_exact [OF h r]
  have "list_all (\<lambda>p. map_of p ''pdf_name'' = Some (PStr ''bio.pdf'')) [scored_bio, scored_far]"
    by (simp add: list_all_iff)
  with h r show ?thesis by (intro conjI)
qed

section \<open>Properties of the extractor\<close>

lemma py_strip_empty_iff: "py_strip s = [] \<longleftrightarrow> (\<forall>c \<in> set s. py_isspace c)"
proof -
  have "py_strip s = [] \<longleftrightarrow> (\<forall>c \<in> set (dropWhile py_isspace s). py_isspace c)"
    by (simp add: py_strip_def dropWhile_eq_Nil_conv)
  also have "\<dots> \<longleftrightarrow> dropWhile py_isspace s = []"
  proof
    assume a: "\<forall>c \<in> set (dropWhile py_isspace s). py_isspace c"
    show "dropWhile py_isspace s = []"
    proof (rule ccontr)
      assume n: "dropWhile py_isspace s \<noteq> []"
      then have "\<not> py_isspace (hd (dropWhile py_isspace s))" by (rule hd_dropWhile)
      moreover from n have "hd (dropWhile py_isspace s) \<in> set (dropWhile py_isspace s)"
        by simp
      ultimately show False using a by blast
    qed
  next
    assume eq: "dropWhile py_isspace s = []"
    show "\<forall>c \<in> set (dropWhile py_isspace s). py_isspace c" unfolding eq by simp
  qed
  also have "\<dots> \<longleftrightarrow> (\<forall>c \<in> set s. py_isspace c)"
    by (simp add: dropWhile_eq_Nil_conv)
  finally show ?thesis .
qed

lemma clean_loop_filter:
  "clean_loop ls cleaned_lines = cleaned_lines @ filter (\<lambda>l. l \<noteq> []) (map py_strip ls)"
  by (induction ls arbitrary: cleaned_lines) (simp_all add: Let_def)

lemma clean_text_strip: "clean_text txt = strip_clean_text txt"
  by (simp add: clean_text_def strip_clean_text_def clean_loop_filter)

lemma extract_loop_concat:
  "extract_loop name i raws pages_data =
     pages_data @ concat (map (\<lambda>(j, raw). case raw of
         None \<Rightarrow> []
       | Some txt \<Rightarrow>
           if \<exists>c \<in> set txt. \<not> py_isspace c
           then [\<lparr>page = int j + 1, text = strip_clean_text txt, pdf_name = name\<rparr>]
           else []) (enumerate i raws))"
proof (induction raws arbitrary: i pages_data)
  case Nil
  show ?case by simp
next
  case (Cons raw raws)
  have e: "t \<noteq> [] \<and> py_strip t \<noteq> [] \<longleftrightarrow> (\<exists>c \<in> set t. \<not> py_isspace c)" for t
    by (auto simp: py_strip_empty_iff)
  show ?case
    by (cases raw) (simp_all add: Cons.IH e clean_text_strip del: ex_simps bex_simps)
qed

lemma extract_sample:
  "extract_text_from_pdf ''bio.pdf'' raw_pages_sample =
     [\<lparr>page = 1, text = ''cell  wall nucleus'', pdf_name = ''bio.pdf''\<rparr>,
      \<lparr>page = 4, text = ''atom'', pdf_name = ''bio.pdf''\<rparr>]"
  by (simp add: extract_text_from_pdf_def raw_pages_sample_def py_strip_def py_isspace_def
        clean_text_def Let_def)

text \<open>
  C9, as stated, fails: the two spaces inside a line stay in the text of the page, where
  collapsing the whitespace inside the line would leave one.
\<close>

theorem clean_text_internal_whitespace_counterexample:
  "extract_text_from_pdf ''bio.pdf'' [Some ''cell  wall''] =
     [\<lparr>page = 1, text = ''cell  wall'', pdf_name = ''bio.pdf''\<rparr>] \<and>
   spec_clean_text ''cell  wall'' = ''cell wall''"
  by (simp add: extract_text_from_pdf_def py_strip_def py_isspace_def clean_text_def Let_def
        spec_clean_text_def spec_collapse_line_def)

text \<open>
  C9, amended: for every source page, the extractor emits a page exactly when the raw text
  of the page has a character that is not whitespace, with the page's number counted from
  1 over all source pages, and the text emitted is the raw text split at line feeds, each
  line stripped of the whitespace at its two ends (whitespace inside a line is kept as it
  is), the empty lines dropped and the others joined by single spaces.
\<close>

theorem extract_text_from_pdf_pages:
  "extract_text_from_pdf name raw_pages =
     concat (map (\<lambda>(i, raw). case raw of
         None \<Rightarrow> []
       | Some txt \<Rightarrow>
           if \<exists>c \<in> set txt. \<not> py_isspace c
           then [\<lparr>page = int i + 1, text = strip_clean_text txt, pdf_name = name\<rparr>]
           else []) (enumerate 0 raw_pages))"
  by (simp add: extract_text_from_pdf_def extract_loop_concat)

theorem extract_text_from_pdf_pages_witness:
  "extract_text_from_pdf ''bio.pdf'' raw_pages_sample =
     [\<lparr>page = 1, text = ''cell  wall nucleus'', pdf_name = ''bio.pdf''\<rparr>,
      \<lparr>page = 4, text = ''atom'', pdf_name = ''bio.pdf''\<rparr>]"
  using extract_text_from_pdf_pages [of "''bio.pdf''" raw_pages_sample]
  by (simp add: raw_pages_sample_def strip_clean_text_def py_strip_def py_isspace_def)

section \<open>Properties of the chunker\<close>

lemma chunks_loop_ids:
  assumes "g = int (length acc)"
    and "chunk_ids acc = map (\<lambda>j. Some (PInt (int j))) [0..<length acc]"
  shows "snd (chunks_loop page_num name cs (acc, g)) =
           int (length (fst (chunks_loop page_num name cs (acc, g)))) \<and>
         chunk_ids (fst (chunks_loop page_num name cs (acc, g))) =
           map (\<lambda>j. Some (PInt (int j)))
             [0..<length (fst (chunks_loop page_num name cs (acc, g)))]"
  using assms
proof (induction cs arbitrary: acc g)
  case Nil
  then show ?case by simp
next
  case (Cons c cs)
  show ?case
    unfolding chunks_loop.simps
    by (rule Cons.IH) (use Cons.prems in \<open>simp_all add: chunk_ids_def\<close>)
qed

lemma pages_loop_ids:
  assumes "snd acc = int (length (fst acc))"
    and "chunk_ids (fst acc) = map (\<lambda>j. Some (PInt (int j))) [0..<length (fst acc)]"
  shows "snd (pages_loop split_text pages acc) =
           int (length (fst (pages_loop split_text pages acc))) \<and>
         chunk_ids (fst (pages_loop split_text pages acc)) =
           map (\<lambda>j. Some (PInt (int j)))
             [0..<length (fst (pages_loop split_text pages acc))]"
  using assms
proof (induction pages arbitrary: acc)
  case Nil
  then show ?case by simp
next
  case (Cons p pages)
  show ?case
  proof (cases "py_strip (text p) = []")
    case True
    with Cons.IH [OF Cons.prems] show ?thesis by simp
  next
    case False
    obtain all_chunks g where acc: "acc = (all_chunks, g)" by (cases acc)
    from Cons.prems acc
    have c: "snd (chunks_loop (page p) (pdf_name p) (split_text (text p)) acc) =
        int (length (fst (chunks_loop (page p) (pdf_name p) (split_text (text p)) acc))) \<and>
      chunk_ids (fst (chunks_loop (page p) (pdf_name p) (split_text (text p)) acc)) =
        map (\<lambda>j. Some (PInt (int j)))
          [0..<length (fst (chunks_loop (page p) (pdf_name p) (split_text (text p)) acc))]"
      using chunks_loop_ids [of g all_chunks] by simp
    from False Cons.IH [OF conjunct1 [OF c] conjunct2 [OF c]] show ?thesis by simp
  qed
qed

text \<open>
  C3, as stated, fails: a second document uploaded into the corpus that holds the first
  has its first chunk numbered 0, the number the chunk of the first document has.
\<close>

theorem chunk_id_restart_counterexample:
  "metadata_log (snd (upload_pdf whole_text zero_embeddings ''chem.pdf'' [Some ''atom'']
      (snd (upload_pdf whole_text zero_embeddings ''bio.pdf'' [Some ''cell''] empty_store)))) =
     [bio_chunk, chem_chunk] \<and>
   chunk_ids [bio_chunk, chem_chunk] = [Some (PInt 0), Some (PInt 0)] \<and>
   chunk_ids (chunk_pages_simple whole_text (extract_text_from_pdf ''chem.pdf'' [Some ''atom''])) =
     [Some (PInt 0)]"
  by (simp add: upload_pdf_def extract_text_from_pdf_def py_strip_def py_isspace_def
        clean_text_def Let_def chunk_pages_simple_def whole_text_def zero_embeddings_def
        add_to_index_def faiss_add_def save_def IndexFlatL2_def ensure_loaded_def
        empty_store_def metadata_log_def chunk_ids_def bio_chunk_def chem_chunk_def)

text \<open>
  C3, amended: the chunk ids that one call of the chunker assigns are the numbers
  0, 1, 2, ... in the order of the chunks, over all the pages given to that call; so they
  are unique and strictly increasing within the call, and every call, and with it every
  uploaded document, starts again at 0 whatever the corpus holds.
\<close>

theorem chunk_pages_simple_ids:
  "chunk_ids (chunk_pages_simple split_text pages_data) =
     map (\<lambda>j. Some (PInt (int j))) [0..<length (chunk_pages_simple split_text pages_data)]"
  using pages_loop_ids [of "([], 0)" split_text pages_data]
  by (simp add: chunk_pages_simple_def chunk_ids_def)

theorem chunk_pages_simple_ids_witness:
  "chunk_ids (chunk_pages_simple whole_text (extract_text_from_pdf ''bio.pdf'' raw_pages_sample)) =
     [Some (PInt 0), Some (PInt 1)]"
proof -
  have "length (chunk_pages_simple whole_text
      (extract_text_from_pdf ''bio.pdf'' raw_pages_sample)) = 2"
    by (simp add: extract_sample chunk_pages_simple_def whole_text_def py_strip_def
          py_isspace_def)
  with chunk_pages_simple_ids [of whole_text "extract_text_from_pdf ''bio.pdf'' raw_pages_sample"]
  show ?thesis by (simp add: upt_rec)
qed

end
